theory Spec2Isabelle
  imports Main "HOL-Library.Sublist"
begin

section \<open>JavaScript values of the client\<close>

text \<open>
  A JavaScript string is a sequence of UTF-16 code units; a code unit is modelled by its
  number. The literals of the source are ASCII, so \<open>utf16\<close> maps each character of a
  literal to one code unit.
\<close>

type_synonym js_string = "nat list"

definition utf16 :: "string \<Rightarrow> js_string" where
  "utf16 s = map of_char s"

text \<open>
  \<open>String.prototype.trim\<close> removes the WhiteSpace and LineTerminator code points of
  ECMAScript from both ends: TAB, LF, VT, FF, CR, SP, NBSP, U+1680, U+2000 to U+200A,
  U+2028, U+2029, U+202F, U+205F, U+3000 and U+FEFF.
\<close>

definition isWhiteSpace :: "nat \<Rightarrow> bool" where
  "isWhiteSpace c =
     (c \<in> {9, 10, 11, 12, 13, 32, 160, 5760, 8232, 8233, 8239, 8287, 12288, 65279}
      \<or> (8192 \<le> c \<and> c \<le> 8202))"

definition trimStart :: "js_string \<Rightarrow> js_string" where
  "trimStart s = dropWhile isWhiteSpace s"

definition trimEnd :: "js_string \<Rightarrow> js_string" where
  "trimEnd s = rev (dropWhile isWhiteSpace (rev s))"

definition trim :: "js_string \<Rightarrow> js_string" where
  "trim s = trimEnd (trimStart s)"

text \<open>Truthiness of a string: the empty string is falsy; \<open>undefined\<close> and \<open>null\<close>
  (here \<open>None\<close>) are falsy.\<close>

definition truthy :: "js_string \<Rightarrow> bool" where
  "truthy s = (s \<noteq> [])"

fun truthy_opt :: "js_string option \<Rightarrow> bool" where
  "truthy_opt None = False"
| "truthy_opt (Some s) = truthy s"

text \<open>\<open>a || b\<close> on an optional string \<open>a\<close> with a string default \<open>b\<close>.\<close>

fun or_else :: "js_string option \<Rightarrow> js_string \<Rightarrow> js_string" where
  "or_else None b = b"
| "or_else (Some a) b = (if truthy a then a else b)"

text \<open>\<open>a || undefined\<close>.\<close>

definition or_undefined :: "js_string option \<Rightarrow> js_string option" where
  "or_undefined a = (if truthy_opt a then a else None)"

text \<open>
  \<open>Number.prototype.toString\<close> on a non-negative integer such as \<open>Date.now()\<close>: its
  decimal digits (code unit 48 is the digit zero).
\<close>

function toString :: "nat \<Rightarrow> js_string" where
  "toString n = (if n < 10 then [48 + n] else toString (n div 10) @ [48 + n mod 10])"
  by pat_completeness auto
termination
  by (relation "measure id") auto

declare toString.simps [simp del]

text \<open>What a rejected promise or a \<open>throw\<close> carries.\<close>

datatype thrown =
    Error js_string
  | AxiosError "js_string option" js_string
  | TypeError

type_synonym 'a promise = "thrown + 'a"

section \<open>The API client (api/generateStory.ts)\<close>

datatype length_tier = Short | Medium | Long

record StoryRequest =
  user_input :: js_string
  length_tier :: "length_tier option"
  req_thread_id :: "js_string option"

text \<open>
  The body of the backend's reply as the client reads it. The interface declares every
  string field but \<open>error\<close> mandatory; the client tests each for truthiness before use,
  so a field the JSON leaves out is \<open>None\<close>.
\<close>

record StoryResponse =
  success :: bool
  story :: "js_string option"
  title :: "js_string option"
  moral :: "js_string option"
  error :: "js_string option"
  thread_id :: "js_string option"

text \<open>
  \<open>generateStory\<close>, given how \<open>apiClient.post\<close> settled: an axios error
  \<open>AxiosError detail message\<close> (\<open>detail\<close> is \<open>error.response?.data?.detail\<close>) is
  rethrown as an \<open>Error\<close> with a prefixed message, anything else is rethrown as it is.
\<close>

definition generateStory :: "StoryResponse promise \<Rightarrow> StoryResponse promise" where
  "generateStory posted =
     (case posted of
        Inr data \<Rightarrow> Inr data
      | Inl (AxiosError detail message) \<Rightarrow>
          Inl (Error (utf16 ''Failed to generate story: '' @ or_else detail message))
      | Inl e \<Rightarrow> Inl e)"

text \<open>The body of a reply to \<open>GET /examples\<close>; \<open>None\<close> is a missing \<open>examples\<close> field.\<close>

record ExamplesData =
  examples :: "js_string list option"

definition fallback_examples :: "js_string list" where
  "fallback_examples =
     [utf16 ''Tell me a story about a brave little mouse'',
      utf16 ''I want to hear about a friendly dragon who loves to bake'',
      utf16 ''Create a story about a curious star exploring the night sky'']"

text \<open>
  \<open>getExamples\<close>, given how \<open>apiClient.get\<close> settled. \<open>Inr None\<close> is a reply whose
  \<open>data\<close> is \<open>null\<close> or \<open>undefined\<close>: reading \<open>.examples\<close> of it throws a
  TypeError inside the \<open>try\<close>. The \<open>catch\<close> returns the fixed list.
\<close>

definition getExamples :: "ExamplesData option promise \<Rightarrow> js_string list option promise" where
  "getExamples got =
     (let tried =
        (case got of
           Inl e \<Rightarrow> Inl e
         | Inr None \<Rightarrow> Inl TypeError
         | Inr (Some data) \<Rightarrow> Inr (examples data))
      in case tried of
           Inl e \<Rightarrow> Inr (Some fallback_examples)
         | Inr v \<Rightarrow> Inr v)"

section \<open>The FlipCard component (components/FlipCard.tsx)\<close>

record FlipCard_state =
  isFlipped :: bool
  longPressTimer :: "nat option"

definition FlipCard_mount :: FlipCard_state where
  "FlipCard_mount = \<lparr>isFlipped = False, longPressTimer = None\<rparr>"

definition handleContextMenu :: "FlipCard_state \<Rightarrow> FlipCard_state" where
  "handleContextMenu s = s\<lparr>isFlipped := \<not> isFlipped s\<rparr>"

text \<open>
  The side in the layout flow: the front (the story) has position \<open>relative\<close> when the
  card is not flipped, the back (the moral) when it is.
\<close>

datatype css_position = Relative | Absolute

datatype side = StorySide | MoralSide

definition front_position :: "FlipCard_state \<Rightarrow> css_position" where
  "front_position s = (if isFlipped s then Absolute else Relative)"

definition back_position :: "FlipCard_state \<Rightarrow> css_position" where
  "back_position s = (if isFlipped s then Relative else Absolute)"

definition shown_side :: "FlipCard_state \<Rightarrow> side" where
  "shown_side s = (if front_position s = Relative then StorySide else MoralSide)"

section \<open>The chat component (App.tsx)\<close>

datatype role = User | Assistant

text \<open>\<open>Message.story\<close>: the title, text and moral of a flip card.\<close>

record StoryCard =
  card_title :: js_string
  card_text :: js_string
  card_moral :: js_string

record Message =
  msg_id :: js_string
  msg_role :: role
  content :: js_string
  msg_story :: "StoryCard option"

text \<open>The component's \<open>useState\<close> cells.\<close>

record App_state =
  messages :: "Message list"
  input :: js_string
  isGenerating :: bool
  showWelcome :: bool
  threadId :: "js_string option"

definition App_mount :: App_state where
  "App_mount =
     \<lparr>messages = [], input = [], isGenerating = False, showWelcome = True, threadId = None\<rparr>"

text \<open>What \<open>generateStoryFromBackend\<close> resolves with.\<close>

record StoryData =
  sd_title :: "js_string option"
  sd_text :: js_string
  sd_moral :: "js_string option"
  isConversational :: "bool option"

text \<open>
  An \<open>async\<close> function runs synchronously up to its first \<open>await\<close> and is resumed when
  the awaited promise settles. Each is modelled by two functions on the component's state:
  \<open>_call\<close> runs to the \<open>await\<close> of the HTTP request and returns the request, \<open>_resume\<close>
  takes how the request settled and runs to the end. State setters become record updates;
  a handler reads the state of the render it was created in, which is the state its
  \<open>_call\<close> receives.

  \<open>generateStoryFromBackend\<close>: the part before the \<open>await\<close> sets \<open>isGenerating\<close> and
  builds the request with \<open>threadId || undefined\<close>.
\<close>

definition generateStoryFromBackend_call ::
    "js_string \<Rightarrow> App_state \<Rightarrow> App_state \<times> StoryRequest" where
  "generateStoryFromBackend_call prompt s =
     (s\<lparr>isGenerating := True\<rparr>,
      \<lparr>user_input = prompt, length_tier = Some Medium,
       req_thread_id = or_undefined (threadId s)\<rparr>)"

text \<open>
  The part after the \<open>await\<close>: a truthy \<open>thread_id\<close> is stored first; a reply with
  \<open>success\<close> and a truthy \<open>story\<close> is a story when its \<open>title\<close> is truthy and a
  conversational reply otherwise; any other reply throws. The \<open>catch\<close> logs and rethrows.
\<close>

definition generateStoryFromBackend_resume ::
    "StoryResponse promise \<Rightarrow> App_state \<Rightarrow> App_state \<times> StoryData promise" where
  "generateStoryFromBackend_resume settled s =
     (case settled of
        Inl e \<Rightarrow> (s, Inl e)
      | Inr response \<Rightarrow>
          (let s1 = (if truthy_opt (thread_id response)
                     then s\<lparr>threadId := thread_id response\<rparr> else s)
           in case story response of
                Some story_text \<Rightarrow>
                  if success response \<and> truthy story_text then
                    (if truthy_opt (title response) then
                       (s1, Inr \<lparr>sd_title = title response, sd_text = story_text,
                                 sd_moral = moral response, isConversational = Some False\<rparr>)
                     else
                       (s1, Inr \<lparr>sd_title = None, sd_text = story_text,
                                 sd_moral = None, isConversational = Some True\<rparr>))
                  else
                    (s1, Inl (Error (or_else (error response)
                                      (utf16 ''Failed to generate story''))))
              | None \<Rightarrow>
                  (s1, Inl (Error (or_else (error response)
                                    (utf16 ''Failed to generate story''))))))"

definition apology :: js_string where
  "apology = utf16
     ''Sorry, I encountered an error generating your story. Please try again with a different request.''"

text \<open>
  \<open>handleSubmit\<close> up to the \<open>await\<close>, at time \<open>now\<close> (\<open>Date.now()\<close>): the early
  return, the user's message, the cleared input, and the call of
  \<open>generateStoryFromBackend\<close> with the trimmed input of this render. The result is the
  new state and the request sent, if any.
\<close>

definition handleSubmit_call :: "nat \<Rightarrow> App_state \<Rightarrow> App_state \<times> StoryRequest option" where
  "handleSubmit_call now s =
     (if \<not> truthy (trim (input s)) \<or> isGenerating s then (s, None)
      else
        (let userMessage =
               \<lparr>msg_id = toString now, msg_role = User, content = trim (input s),
                msg_story = None\<rparr>;
             s1 = s\<lparr>messages := messages s @ [userMessage]\<rparr>;
             s2 = s1\<lparr>input := []\<rparr>;
             (s3, request) = generateStoryFromBackend_call (trim (input s)) s2
         in (s3, Some request)))"

text \<open>
  \<open>handleSubmit\<close> after the \<open>await\<close>, at time \<open>now\<close>, on the state \<open>s\<close> of that
  moment (the setters take the previous state as their argument): the assistant's message
  in the \<open>try\<close>, the apology in the \<open>catch\<close>, and \<open>isGenerating\<close> reset in the
  \<open>finally\<close>.
\<close>

definition assistantMessage :: "nat \<Rightarrow> StoryData \<Rightarrow> Message" where
  "assistantMessage now storyData =
     \<lparr>msg_id = toString (now + 1), msg_role = Assistant,
      content = (if isConversational storyData = Some True then sd_text storyData
                 else or_else (sd_title storyData) (utf16 ''Story Generated'')),
      msg_story = (if isConversational storyData = Some True then None
                   else Some \<lparr>card_title = or_else (sd_title storyData) [],
                              card_text = or_else (Some (sd_text storyData)) [],
                              card_moral = or_else (sd_moral storyData) []\<rparr>)\<rparr>"

definition errorMessage :: "nat \<Rightarrow> Message" where
  "errorMessage now =
     \<lparr>msg_id = toString (now + 1), msg_role = Assistant, content = apology,
      msg_story = None\<rparr>"

definition handleSubmit_resume :: "nat \<Rightarrow> StoryResponse promise \<Rightarrow> App_state \<Rightarrow> App_state" where
  "handleSubmit_resume now posted s =
     (let (s1, result) = generateStoryFromBackend_resume (generateStory posted) s;
          s2 = (case result of
                  Inr storyData \<Rightarrow>
                    s1\<lparr>messages := messages s1 @ [assistantMessage now storyData]\<rparr>
                | Inl e \<Rightarrow> s1\<lparr>messages := messages s1 @ [errorMessage now]\<rparr>)
      in s2\<lparr>isGenerating := False\<rparr>)"

text \<open>What the component renders for one message, and the send button's \<open>disabled\<close>.\<close>

datatype element =
    UserBubble js_string
  | FlipCard js_string js_string js_string
  | AssistantBubble js_string

definition render_message :: "Message \<Rightarrow> element" where
  "render_message message =
     (case msg_role message of
        User \<Rightarrow> UserBubble (content message)
      | Assistant \<Rightarrow>
          (case msg_story message of
             Some sc \<Rightarrow> FlipCard (card_title sc) (card_text sc) (card_moral sc)
           | None \<Rightarrow> AssistantBubble (content message)))"

definition render_messages :: "App_state \<Rightarrow> element list" where
  "render_messages s = map render_message (messages s)"

definition send_disabled :: "App_state \<Rightarrow> bool" where
  "send_disabled s = (isGenerating s \<or> \<not> truthy (trim (input s)))"

section \<open>The placeholder component (App-simple.tsx)\<close>

record Simple_message =
  sm_id :: js_string
  sm_role :: role
  sm_content :: js_string

record Simple_state =
  sm_messages :: "Simple_message list"
  sm_input :: js_string
  sm_isGenerating :: bool

text \<open>
  Its \<open>handleSubmit\<close> awaits a two-second timer and never calls the backend: \<open>_call\<close> runs
  to the timer, \<open>_resume\<close> from it.
\<close>

definition simple_handleSubmit_call :: "nat \<Rightarrow> Simple_state \<Rightarrow> Simple_state" where
  "simple_handleSubmit_call now s =
     (if \<not> truthy (trim (sm_input s)) \<or> sm_isGenerating s then s
      else
        (let userMessage =
               \<lparr>sm_id = toString now, sm_role = User, sm_content = trim (sm_input s)\<rparr>
         in s\<lparr>sm_messages := sm_messages s @ [userMessage], sm_input := [],
              sm_isGenerating := True\<rparr>))"

definition simple_handleSubmit_resume :: "nat \<Rightarrow> Simple_state \<Rightarrow> Simple_state" where
  "simple_handleSubmit_resume now s =
     (let assistant =
            \<lparr>sm_id = toString (now + 1), sm_role = Assistant,
             sm_content = utf16 ''Backend integration coming soon! The app is loading correctly.''\<rparr>
      in s\<lparr>sm_messages := sm_messages s @ [assistant], sm_isGenerating := False\<rparr>)"

section \<open>One client over time\<close>

text \<open>
  The browser delivers one event at a time, and React commits the state a handler set
  before the next event's handler runs. A client is the component's state, the requests
  that are in flight, and a log of every request sent. \<open>Settle\<close> is the arrival of the
  reply (or failure) of the oldest request in flight; without one in flight it cannot
  occur and changes nothing.
\<close>

datatype event =
    Submit nat
  | Change js_string
  | Settle nat "StoryResponse promise"
  | WelcomeTimeout

record client =
  app :: App_state
  in_flight :: "StoryRequest list"
  sent :: "StoryRequest list"

definition client_mount :: client where
  "client_mount = \<lparr>app = App_mount, in_flight = [], sent = []\<rparr>"

fun fire :: "client \<Rightarrow> event \<Rightarrow> client" where
  "fire c (Submit now) =
     (let (s, request) = handleSubmit_call now (app c)
      in case request of
           None \<Rightarrow> c\<lparr>app := s\<rparr>
         | Some q \<Rightarrow> c\<lparr>app := s, in_flight := in_flight c @ [q], sent := sent c @ [q]\<rparr>)"
| "fire c (Change v) = c\<lparr>app := (app c)\<lparr>input := v\<rparr>\<rparr>"
| "fire c (Settle now posted) =
     (case in_flight c of
        [] \<Rightarrow> c
      | q # qs \<Rightarrow> c\<lparr>app := handleSubmit_resume now posted (app c), in_flight := qs\<rparr>)"
| "fire c WelcomeTimeout = c\<lparr>app := (app c)\<lparr>showWelcome := False\<rparr>\<rparr>"

definition run :: "client \<Rightarrow> event list \<Rightarrow> client" where
  "run c evs = foldl fire c evs"

section \<open>The backend's orchestration core\<close>

text \<open>
  Modelled from the spec: the Python backend (the routing, generation, checking and
  formatting nodes of \<open>src/react_agent\<close> and the server of \<open>src/api\<close>) is not among the
  sources, so the definitions of this section follow sections 3, 4.3, 4.4, 4.7 and 7 of
  the specification. The language model, the safety validator, the moral summarizer and
  the lexical and semantic patterns of the router are capabilities outside the core and
  enter as parameters.
\<close>

datatype ClassifiedIntent =
    NewStory js_string
  | ModifyStory js_string
  | RetrieveClassic js_string
  | Greeting
  | Farewell
  | Other js_string

text \<open>
  Modelled from the spec: the patterns the IntentRouter matches an input against
  (section 4.3, steps 1 to 4); their content is opaque configuration.
\<close>

record patterns =
  matches_farewell :: "js_string \<Rightarrow> bool"
  matches_greeting :: "js_string \<Rightarrow> bool"
  names_classic :: "js_string \<Rightarrow> bool"
  refers_to_modification :: "js_string \<Rightarrow> bool"

text \<open>
  Modelled from the spec: the IntentRouter's decision policy of section 4.3, in its
  priority order, on the input and on whether the thread has a live story.
\<close>

definition IntentRouter :: "patterns \<Rightarrow> js_string \<Rightarrow> bool \<Rightarrow> ClassifiedIntent" where
  "IntentRouter p u has_live_story =
     (if matches_farewell p u then Farewell
      else if matches_greeting p u then Greeting
      else if names_classic p u then RetrieveClassic u
      else if has_live_story \<and> refers_to_modification p u then ModifyStory u
      else NewStory u)"

datatype violation = Violence | AdultThemes | FearHorror | OtherViolation

text \<open>Modelled from the spec: the ValidationVerdict of section 3.\<close>

record ValidationVerdict =
  accepted :: bool
  reasons :: "violation set"
  suggested_fix :: "js_string option"

text \<open>
  Modelled from the spec: the StoryDraft of section 3; \<open>rejection_reasons\<close> holds the
  verdicts of the rejections so far, oldest first.
\<close>

record StoryDraft =
  draft_title :: js_string
  draft_body :: js_string
  draft_moral :: "js_string option"
  attempt_count :: nat
  rejection_reasons :: "ValidationVerdict list"

datatype core_error =
    UnknownThread
  | GenerationUnavailable
  | ValidationExhausted
  | ClassicNotFound
  | MoralGenerationFailed

text \<open>
  Modelled from the spec: what the Drafting state passes to the LanguageModelGateway
  (section 4.4): the theme or modification hint, the prior story if modifying, the length
  tier, and the accumulated rejection reasons as negative constraints; and the title and
  body it gets back.
\<close>

record DraftingInput =
  hint :: js_string
  prior_story :: "js_string option"
  tier :: length_tier
  negative_constraints :: "ValidationVerdict list"

record GeneratedText =
  gen_title :: js_string
  gen_body :: js_string

text \<open>
  Modelled from the spec: how the retry loop of section 4.4 ends. \<open>Accepted\<close> and
  \<open>Exhausted\<close> are its terminal states; \<open>Failed\<close> is a gateway failure, which is not
  retried (sections 7 and 9); \<open>NoTransition\<close> is a rejected draft whose attempt count
  exceeds \<open>max_iterations\<close>, for which section 4.4 names no transition.
\<close>

datatype loop_end =
    Accepted StoryDraft
  | Exhausted
  | Failed core_error
  | NoTransition

text \<open>
  Modelled from the spec: the StoryGenerator and SafetyValidator retry loop of section
  4.4, from the state Drafting with \<open>count\<close> attempts made and the verdicts \<open>rejected\<close>.
  Drafting produces a draft and increments the attempt count; Validating accepts, or
  retries while the count is below \<open>max_iterations\<close>, or is exhausted when the count
  equals it. The result is how the loop ended and every draft it produced, oldest first.
\<close>

function retry_loop ::
    "int \<Rightarrow> (DraftingInput \<Rightarrow> core_error + GeneratedText) \<Rightarrow> (StoryDraft \<Rightarrow> ValidationVerdict)
     \<Rightarrow> js_string \<Rightarrow> js_string option \<Rightarrow> length_tier
     \<Rightarrow> nat \<Rightarrow> ValidationVerdict list \<Rightarrow> StoryDraft list \<Rightarrow> loop_end \<times> StoryDraft list" where
  "retry_loop max_iterations generate validate h prior t count rejected drafts =
     (case generate \<lparr>hint = h, prior_story = prior, tier = t,
                      negative_constraints = rejected\<rparr> of
        Inl e \<Rightarrow> (Failed e, drafts)
      | Inr g \<Rightarrow>
          (let draft = \<lparr>draft_title = gen_title g, draft_body = gen_body g,
                        draft_moral = None, attempt_count = count + 1,
                        rejection_reasons = rejected\<rparr>;
               verdict = validate draft
           in if accepted verdict then (Accepted draft, drafts @ [draft])
              else if int (count + 1) < max_iterations then
                retry_loop max_iterations generate validate h prior t (count + 1)
                  (rejected @ [verdict]) (drafts @ [draft])
              else if int (count + 1) = max_iterations then (Exhausted, drafts @ [draft])
              else (NoTransition, drafts @ [draft])))"
  by pat_completeness auto
termination
  by (relation "measure (\<lambda>(m, g, v, h, p, t, count, r, d). nat (m - int count))") auto

declare retry_loop.simps [simp del]

text \<open>
  Modelled from the spec: the loop of one request; \<open>attempt_count\<close> starts at 0 before
  the first draft and nothing has been rejected yet (section 4.4).
\<close>

definition validation_loop ::
    "int \<Rightarrow> (DraftingInput \<Rightarrow> core_error + GeneratedText) \<Rightarrow> (StoryDraft \<Rightarrow> ValidationVerdict)
     \<Rightarrow> js_string \<Rightarrow> js_string option \<Rightarrow> length_tier \<Rightarrow> loop_end \<times> StoryDraft list" where
  "validation_loop max_iterations generate validate h prior t =
     retry_loop max_iterations generate validate h prior t 0 [] []"











section \<open>Properties of the client\<close>

subsection \<open>The flip card\<close>

lemma handleContextMenu_iterate:
  "isFlipped ((handleContextMenu ^^ n) FlipCard_mount) = odd n"
  by (induction n) (simp_all add: handleContextMenu_def FlipCard_mount_def)

text \<open>
  C9. A FlipCard mounts showing the story side (\<open>isFlipped\<close> is false); each right-click
  toggles \<open>isFlipped\<close>, so after \<open>n\<close> right-clicks the card is flipped exactly when \<open>n\<close>
  is odd: it shows the story side for even \<open>n\<close> and the moral side for odd \<open>n\<close>, and two
  successive right-clicks restore the state they started from.
\<close>

theorem flipcard_right_click_parity:
  "isFlipped FlipCard_mount = False
   \<and> shown_side FlipCard_mount = StorySide
   \<and> isFlipped ((handleContextMenu ^^ n) FlipCard_mount) = odd n
   \<and> shown_side ((handleContextMenu ^^ n) FlipCard_mount)
       = (if even n then StorySide else MoralSide)
   \<and> handleContextMenu (handleContextMenu s) = s"
proof -
  have a: "isFlipped FlipCard_mount = False"
    by (simp add: FlipCard_mount_def)
  have b: "shown_side FlipCard_mount = StorySide"
    by (simp add: shown_side_def front_position_def FlipCard_mount_def)
  have c: "shown_side ((handleContextMenu ^^ n) FlipCard_mount)
       = (if even n then StorySide else MoralSide)"
    by (simp add: shown_side_def front_position_def handleContextMenu_iterate)
  have d: "handleContextMenu (handleContextMenu s) = s"
    by (simp add: handleContextMenu_def)
  from a b c d handleContextMenu_iterate show ?thesis by blast
qed

subsection \<open>The example prompts\<close>

text \<open>
  C10. \<open>getExamples\<close> never rejects: however the HTTP GET settles, the promise resolves.
  When the GET fails (or the reply has no body, so that reading \<open>examples\<close> throws) it
  resolves with exactly the fixed list of three example prompts; when the GET succeeds
  with an \<open>examples\<close> array it resolves with that array.
\<close>

theorem getExamples_never_rejects:
  "(\<exists>v. getExamples got = Inr v)
   \<and> getExamples (Inl e) =
       Inr (Some [utf16 ''Tell me a story about a brave little mouse'',
                  utf16 ''I want to hear about a friendly dragon who loves to bake'',
                  utf16 ''Create a story about a curious star exploring the night sky''])
   \<and> getExamples (Inr None) =
       Inr (Some [utf16 ''Tell me a story about a brave little mouse'',
                  utf16 ''I want to hear about a friendly dragon who loves to bake'',
                  utf16 ''Create a story about a curious star exploring the night sky''])
   \<and> getExamples (Inr (Some \<lparr>examples = Some xs\<rparr>)) = Inr (Some xs)"
  by (simp add: getExamples_def fallback_examples_def split: sum.split option.split)

subsection \<open>Trimming and submitting\<close>

lemma trimEnd_Cons:
  "\<not> isWhiteSpace x \<Longrightarrow> trimEnd (x # xs) = x # trimEnd xs"
  by (simp add: trimEnd_def dropWhile_append)

lemma trimStart_trimEnd_trimStart:
  "trimStart (trimEnd (trimStart s)) = trimEnd (trimStart s)"
proof (cases "trimStart s")
  case Nil
  show ?thesis unfolding Nil by (simp add: trimEnd_def trimStart_def)
next
  case (Cons x xs)
  then have "\<not> isWhiteSpace x"
    unfolding trimStart_def by (metis hd_dropWhile list.distinct(1) list.sel(1))
  then show ?thesis
    using Cons by (simp add: trimEnd_Cons) (simp add: trimStart_def)
qed

lemma trimEnd_idem: "trimEnd (trimEnd s) = trimEnd s"
  by (simp add: trimEnd_def)

lemma trim_idem: "trim (trim s) = trim s"
  by (simp add: trim_def trimStart_trimEnd_trimStart trimEnd_idem)

lemma handleSubmit_call_returns_early:
  "\<not> truthy (trim (input s)) \<or> isGenerating s \<Longrightarrow> handleSubmit_call now s = (s, None)"
  by (auto simp add: handleSubmit_call_def)

lemma handleSubmit_call_sends:
  "truthy (trim (input s)) \<Longrightarrow> \<not> isGenerating s \<Longrightarrow>
   handleSubmit_call now s =
     (s\<lparr>messages := messages s @ [\<lparr>msg_id = toString now, msg_role = User,
           content = trim (input s), msg_story = None\<rparr>],
        input := [], isGenerating := True\<rparr>,
      Some \<lparr>user_input = trim (input s), length_tier = Some Medium,
            req_thread_id = or_undefined (threadId s)\<rparr>)"
  by (simp add: handleSubmit_call_def generateStoryFromBackend_call_def Let_def)

lemma handleSubmit_call_request:
  "handleSubmit_call now s = (s', Some q) \<Longrightarrow>
   truthy (trim (input s)) \<and> \<not> isGenerating s \<and> user_input q = trim (input s)
   \<and> req_thread_id q = or_undefined (threadId s) \<and> threadId s' = threadId s
   \<and> isGenerating s'"
  by (cases "truthy (trim (input s)) \<and> \<not> isGenerating s")
     (auto simp add: handleSubmit_call_sends handleSubmit_call_returns_early)

lemma fire_sent:
  "\<exists>qs. sent (fire c e) = sent c @ qs \<and>
     (\<forall>q \<in> set qs. \<exists>now s'. handleSubmit_call now (app c) = (s', Some q))"
proof (cases e)
  case (Submit now)
  then show ?thesis
    by (cases "handleSubmit_call now (app c)") (auto split: option.split)
next
  case (Settle now posted)
  then show ?thesis by (simp split: list.split)
qed simp_all

lemma run_sent_nonblank:
  "\<forall>q \<in> set (sent c). truthy (trim (user_input q)) \<Longrightarrow>
   \<forall>q \<in> set (sent (run c evs)). truthy (trim (user_input q))"
  unfolding run_def
proof (induction evs arbitrary: c)
  case Nil
  then show ?case by simp
next
  case (Cons e evs)
  obtain qs where qs: "sent (fire c e) = sent c @ qs"
    "\<forall>q \<in> set qs. \<exists>now s'. handleSubmit_call now (app c) = (s', Some q)"
    using fire_sent by blast
  have "\<forall>q \<in> set qs. truthy (trim (user_input q))"
    using qs(2) handleSubmit_call_request trim_idem by metis
  with Cons.prems qs(1) have "\<forall>q \<in> set (sent (fire c e)). truthy (trim (user_input q))"
    by auto
  then show ?case using Cons.IH by simp
qed

text \<open>
  C5. A submitted input that is empty or only whitespace after trimming sends no
  generation request: \<open>handleSubmit\<close> returns at its first line, with the state
  unchanged (in both components; the placeholder component never calls the backend at
  all). Every request that \<open>handleSubmit\<close> does send carries the trimmed input, which is
  not empty, and stays non-empty under trimming; so does every request a client has ever
  sent.
\<close>

theorem blank_input_sends_no_request:
  "(\<not> truthy (trim (input s)) \<longrightarrow> handleSubmit_call now s = (s, None))
   \<and> (\<forall>s' q. handleSubmit_call now s = (s', Some q) \<longrightarrow>
         user_input q = trim (input s) \<and> truthy (trim (user_input q)))
   \<and> (\<forall>q \<in> set (sent (run client_mount evs)). truthy (trim (user_input q)))
   \<and> (\<not> truthy (trim (sm_input t)) \<longrightarrow> simple_handleSubmit_call now t = t)"
proof -
  have a: "\<not> truthy (trim (input s)) \<longrightarrow> handleSubmit_call now s = (s, None)"
    by (simp add: handleSubmit_call_returns_early)
  have b: "\<forall>s' q. handleSubmit_call now s = (s', Some q) \<longrightarrow>
         user_input q = trim (input s) \<and> truthy (trim (user_input q))"
    using handleSubmit_call_request trim_idem by metis
  have c: "\<forall>q \<in> set (sent (run client_mount evs)). truthy (trim (user_input q))"
    by (rule run_sent_nonblank) (simp add: client_mount_def)
  have d: "\<not> truthy (trim (sm_input t)) \<longrightarrow> simple_handleSubmit_call now t = t"
    by (simp add: simple_handleSubmit_call_def)
  from a b c d show ?thesis by blast
qed

theorem blank_input_sends_no_request_witness:
  "\<not> truthy (trim (input (App_mount\<lparr>input := utf16 ''  ''\<rparr>)))
   \<and> handleSubmit_call 5 (App_mount\<lparr>input := utf16 ''  ''\<rparr>)
       = (App_mount\<lparr>input := utf16 ''  ''\<rparr>, None)
   \<and> handleSubmit_call 5 (App_mount\<lparr>input := utf16 '' hi ''\<rparr>)
       = (App_mount\<lparr>messages := [\<lparr>msg_id = utf16 ''5'', msg_role = User,
              content = utf16 ''hi'', msg_story = None\<rparr>], isGenerating := True\<rparr>,
          Some \<lparr>user_input = utf16 ''hi'', length_tier = Some Medium, req_thread_id = None\<rparr>)
   \<and> truthy (trim (utf16 ''hi''))
   \<and> sent (run client_mount [Change (utf16 '' ''), Submit 5, Change (utf16 '' hi ''), Submit 6])
       = [\<lparr>user_input = utf16 ''hi'', length_tier = Some Medium, req_thread_id = None\<rparr>]
   \<and> \<not> truthy (trim (sm_input \<lparr>sm_messages = [], sm_input = utf16 ''  '', sm_isGenerating = False\<rparr>))
   \<and> simple_handleSubmit_call 5 \<lparr>sm_messages = [], sm_input = utf16 ''  '', sm_isGenerating = False\<rparr>
       = \<lparr>sm_messages = [], sm_input = utf16 ''  '', sm_isGenerating = False\<rparr>"
proof -
  let ?blank = "App_mount\<lparr>input := utf16 ''  ''\<rparr>"
  let ?hi = "App_mount\<lparr>input := utf16 '' hi ''\<rparr>"
  let ?t = "\<lparr>sm_messages = [], sm_input = utf16 ''  '', sm_isGenerating = False\<rparr>"
  let ?q = "\<lparr>user_input = utf16 ''hi'', length_tier = Some Medium, req_thread_id = None\<rparr>"
  let ?evs = "[Change (utf16 '' ''), Submit 5, Change (utf16 '' hi ''), Submit 6]"
  have blank: "trim (utf16 ''  '') = []" "trim (utf16 '' '') = []"
    by (simp_all add: trim_def trimEnd_def trimStart_def utf16_def isWhiteSpace_def)
  have hi: "trim (utf16 '' hi '') = utf16 ''hi''"
    by (simp add: trim_def trimEnd_def trimStart_def utf16_def isWhiteSpace_def)
  have ne: "utf16 ''hi'' \<noteq> []"
    by (simp add: utf16_def)
  have h1: "\<not> truthy (trim (input ?blank))"
    by (simp add: blank truthy_def)
  have h2: "\<not> truthy (trim (sm_input ?t))"
    by (simp add: blank truthy_def)
  have five: "toString 5 = utf16 ''5''" "toString 6 = utf16 ''6''"
    by (simp_all add: toString.simps utf16_def)
  have call: "handleSubmit_call 5 ?hi
       = (App_mount\<lparr>messages := [\<lparr>msg_id = utf16 ''5'', msg_role = User,
              content = utf16 ''hi'', msg_story = None\<rparr>], isGenerating := True\<rparr>, Some ?q)"
    by (simp add: handleSubmit_call_def generateStoryFromBackend_call_def hi five
        truthy_def or_undefined_def App_mount_def ne)
  have sent: "sent (run client_mount ?evs) = [?q]"
    by (simp add: run_def client_mount_def handleSubmit_call_def
        generateStoryFromBackend_call_def hi blank five truthy_def or_undefined_def
        App_mount_def ne)
  note inst = blank_input_sends_no_request [of ?blank 5 ?evs ?t]
  from inst h1 have r1: "handleSubmit_call 5 ?blank = (?blank, None)" by blast
  from inst h2 have r2: "simple_handleSubmit_call 5 ?t = ?t" by blast
  from inst sent have r3: "truthy (trim (utf16 ''hi''))" by simp
  from blank_input_sends_no_request [of ?hi 5 ?evs ?t] call
  have r4: "user_input ?q = trim (input ?hi)" by blast
  from h1 r1 call r3 r4 sent h2 r2 show ?thesis by blast
qed

subsection \<open>Replies and failures\<close>

lemma resume_state:
  "fst (generateStoryFromBackend_resume settled s) =
     (case settled of
        Inl e \<Rightarrow> s
      | Inr response \<Rightarrow>
          if truthy_opt (thread_id response) then s\<lparr>threadId := thread_id response\<rparr> else s)"
  by (simp add: generateStoryFromBackend_resume_def Let_def split: sum.split option.split)

lemma resume_messages:
  "messages (fst (generateStoryFromBackend_resume settled s)) = messages s"
  by (simp add: resume_state split: sum.split)

lemma generateStory_Inr: "generateStory (Inr r) = Inr r"
  by (simp add: generateStory_def)

lemma generateStory_Inl: "\<exists>e'. generateStory (Inl e) = Inl e'"
  by (cases e) (simp_all add: generateStory_def)

lemma resume_throws:
  "settled = Inl e \<or> (settled = Inr r \<and> (\<not> success r \<or> \<not> truthy_opt (story r))) \<Longrightarrow>
   \<exists>e'. snd (generateStoryFromBackend_resume settled s) = Inl e'"
  by (auto simp add: generateStoryFromBackend_resume_def Let_def split: option.split)

lemma handleSubmit_resume_unfold:
  "handleSubmit_resume now posted s =
     (let p = generateStoryFromBackend_resume (generateStory posted) s
      in (fst p)\<lparr>messages := messages s @
            [case snd p of Inr storyData \<Rightarrow> assistantMessage now storyData
             | Inl e \<Rightarrow> errorMessage now],
          isGenerating := False\<rparr>)"
proof -
  obtain s1 result where
    p: "generateStoryFromBackend_resume (generateStory posted) s = (s1, result)"
    by (cases "generateStoryFromBackend_resume (generateStory posted) s")
  have "messages s1 = messages s"
    using resume_messages [of "generateStory posted" s] p by simp
  then show ?thesis
    by (simp add: handleSubmit_resume_def p Let_def split: sum.split)
qed

lemma handleSubmit_resume_not_generating:
  "isGenerating (handleSubmit_resume now posted s) = False"
  by (simp add: handleSubmit_resume_unfold Let_def)

lemma handleSubmit_resume_failure:
  assumes "posted = Inl e \<or> (posted = Inr r \<and> (\<not> success r \<or> \<not> truthy_opt (story r)))"
  shows "messages (handleSubmit_resume now posted s) = messages s @ [errorMessage now]"
proof -
  have "generateStory posted = Inl e' \<or>
        (generateStory posted = Inr r \<and> (\<not> success r \<or> \<not> truthy_opt (story r)))"
    if "generateStory (Inl e) = Inl e'" for e'
    using assms that generateStory_Inr by auto
  then obtain e' where
    "generateStory posted = Inl e' \<or>
        (generateStory posted = Inr r \<and> (\<not> success r \<or> \<not> truthy_opt (story r)))"
    using generateStory_Inl by blast
  then obtain e'' where
    "snd (generateStoryFromBackend_resume (generateStory posted) s) = Inl e''"
    using resume_throws by blast
  then show ?thesis
    by (simp add: handleSubmit_resume_unfold Let_def)
qed

lemma render_errorMessage: "render_message (errorMessage now) = AssistantBubble apology"
  by (simp add: render_message_def errorMessage_def)

lemma handleSubmit_resume_story:
  assumes "success r" "story r = Some st" "truthy st"
  shows "messages (handleSubmit_resume now (Inr r) s) = messages s @
     [assistantMessage now
        (if truthy_opt (title r)
         then \<lparr>sd_title = title r, sd_text = st, sd_moral = moral r,
               isConversational = Some False\<rparr>
         else \<lparr>sd_title = None, sd_text = st, sd_moral = None,
               isConversational = Some True\<rparr>)]"
  using assms
  by (simp add: handleSubmit_resume_unfold Let_def generateStory_Inr
      generateStoryFromBackend_resume_def)

text \<open>
  C7. When a generation request fails (the HTTP call throws, or the reply has
  \<open>success\<close> false, or its \<open>story\<close> is missing or empty), the one message added to the
  conversation is the fixed apology sentence, with no story card, rendered as a plain
  bubble. What is rendered is the previous conversation followed by that bubble: it does
  not depend on the error thrown, its message, or the reply's \<open>error\<close> field.
\<close>

theorem failure_shows_fixed_apology:
  assumes "posted = Inl e \<or> (posted = Inr r \<and> (\<not> success r \<or> \<not> truthy_opt (story r)))"
  shows "messages (handleSubmit_resume now posted s) = messages s @ [errorMessage now]
    \<and> content (errorMessage now) = apology
    \<and> msg_story (errorMessage now) = None
    \<and> render_messages (handleSubmit_resume now posted s)
        = render_messages s @ [AssistantBubble apology]"
  using handleSubmit_resume_failure [OF assms]
  by (simp add: render_messages_def render_errorMessage) (simp add: errorMessage_def)

theorem failure_shows_fixed_apology_witness:
  "render_messages (handleSubmit_resume 7 (Inl (AxiosError None (utf16 ''Network Error''))) App_mount)
     = [AssistantBubble apology]
   \<and> render_messages (handleSubmit_resume 7
        (Inr \<lparr>success = False, story = None, title = None, moral = None,
              error = Some (utf16 ''boom''), thread_id = None\<rparr>) App_mount)
     = [AssistantBubble apology]
   \<and> apology = utf16
     ''Sorry, I encountered an error generating your story. Please try again with a different request.''"
proof -
  let ?r = "\<lparr>success = False, story = None, title = None, moral = None,
              error = Some (utf16 ''boom''), thread_id = None\<rparr>"
  let ?e = "AxiosError None (utf16 ''Network Error'')"
  have none: "render_messages App_mount = []"
    by (simp add: render_messages_def App_mount_def)
  have a: "render_messages (handleSubmit_resume 7 (Inl ?e) App_mount) = [AssistantBubble apology]"
    using failure_shows_fixed_apology [of "Inl ?e" ?e ?r 7 App_mount] none by simp
  have b: "render_messages (handleSubmit_resume 7 (Inr ?r) App_mount) = [AssistantBubble apology]"
    using failure_shows_fixed_apology [of "Inr ?r" ?e ?r 7 App_mount] none by simp
  from a b show ?thesis by (simp add: apology_def)
qed

text \<open>
  C4. For a reply with \<open>success\<close> true and a non-empty \<open>story\<close>, the client renders a
  flip card (with the reply's title, its story text and its moral, or the empty string
  for a missing moral) if and only if the reply's \<open>title\<close> is present and non-empty;
  otherwise it renders a plain bubble that holds the story field's text.
\<close>

theorem title_decides_card_or_bubble:
  assumes "success r" "story r = Some st" "truthy st"
  shows "(title r = Some t \<and> truthy t \<longrightarrow>
            render_messages (handleSubmit_resume now (Inr r) s)
              = render_messages s @ [FlipCard t st (or_else (moral r) [])])
    \<and> (\<not> truthy_opt (title r) \<longrightarrow>
            render_messages (handleSubmit_resume now (Inr r) s)
              = render_messages s @ [AssistantBubble st])
    \<and> ((\<exists>t' x m. last (render_messages (handleSubmit_resume now (Inr r) s)) = FlipCard t' x m)
          = truthy_opt (title r))"
proof (cases "truthy_opt (title r)")
  case True
  then obtain t' where t': "title r = Some t'" "truthy t'"
    by (cases "title r") simp_all
  have "render_messages (handleSubmit_resume now (Inr r) s)
          = render_messages s @ [FlipCard t' st (or_else (moral r) [])]"
    using assms True t'
    by (simp add: render_messages_def handleSubmit_resume_story assistantMessage_def
        render_message_def)
  with True t' show ?thesis by auto
next
  case False
  have "render_messages (handleSubmit_resume now (Inr r) s)
          = render_messages s @ [AssistantBubble st]"
    using assms False
    by (simp add: render_messages_def handleSubmit_resume_story assistantMessage_def
        render_message_def)
  with False show ?thesis by auto
qed

theorem title_decides_card_or_bubble_witness:
  "render_messages (handleSubmit_resume 7
        (Inr \<lparr>success = True, story = Some (utf16 ''Once''), title = Some (utf16 ''Mouse''),
              moral = Some (utf16 ''Be brave''), error = None,
              thread_id = Some (utf16 ''t1'')\<rparr>) App_mount)
     = [FlipCard (utf16 ''Mouse'') (utf16 ''Once'') (utf16 ''Be brave'')]
   \<and> render_messages (handleSubmit_resume 7
        (Inr \<lparr>success = True, story = Some (utf16 ''Once''), title = None,
              moral = Some (utf16 ''Be brave''), error = None,
              thread_id = Some (utf16 ''t1'')\<rparr>) App_mount)
     = [AssistantBubble (utf16 ''Once'')]
   \<and> render_messages (handleSubmit_resume 7
        (Inr \<lparr>success = True, story = Some (utf16 ''Once''), title = Some [],
              moral = None, error = None, thread_id = None\<rparr>) App_mount)
     = [AssistantBubble (utf16 ''Once'')]"
proof -
  let ?a = "\<lparr>success = True, story = Some (utf16 ''Once''), title = Some (utf16 ''Mouse''),
              moral = Some (utf16 ''Be brave''), error = None,
              thread_id = Some (utf16 ''t1'')\<rparr>"
  let ?b = "\<lparr>success = True, story = Some (utf16 ''Once''), title = None,
              moral = Some (utf16 ''Be brave''), error = None,
              thread_id = Some (utf16 ''t1'')\<rparr>"
  let ?c = "\<lparr>success = True, story = Some (utf16 ''Once''), title = Some [],
              moral = None, error = None, thread_id = None\<rparr>"
  have none: "render_messages App_mount = []"
    by (simp add: render_messages_def App_mount_def)
  have t: "truthy (utf16 ''Once'')" "truthy (utf16 ''Mouse'')" "truthy (utf16 ''Be brave'')"
    by (simp_all add: truthy_def utf16_def)
  have a: "render_messages (handleSubmit_resume 7 (Inr ?a) App_mount)
     = [FlipCard (utf16 ''Mouse'') (utf16 ''Once'') (utf16 ''Be brave'')]"
    using title_decides_card_or_bubble [of ?a "utf16 ''Once''" "utf16 ''Mouse''" 7 App_mount]
      none t by simp
  have b: "render_messages (handleSubmit_resume 7 (Inr ?b) App_mount)
     = [AssistantBubble (utf16 ''Once'')]"
    using title_decides_card_or_bubble [of ?b "utf16 ''Once''" "[]" 7 App_mount]
      none t by simp
  have c: "render_messages (handleSubmit_resume 7 (Inr ?c) App_mount)
     = [AssistantBubble (utf16 ''Once'')]"
    using title_decides_card_or_bubble [of ?c "utf16 ''Once''" "[]" 7 App_mount]
      none t by (simp add: truthy_def)
  from a b c show ?thesis by blast
qed

subsection \<open>One request at a time\<close>

lemma fire_in_flight:
  assumes "length (in_flight c) = (if isGenerating (app c) then 1 else 0)"
  shows "length (in_flight (fire c e)) = (if isGenerating (app (fire c e)) then 1 else 0)"
proof (cases e)
  case (Submit now)
  show ?thesis
  proof (cases "truthy (trim (input (app c))) \<and> \<not> isGenerating (app c)")
    case True
    then show ?thesis
      using assms Submit by (simp add: handleSubmit_call_sends)
  next
    case False
    then have "handleSubmit_call now (app c) = (app c, None)"
      by (intro handleSubmit_call_returns_early) blast
    then show ?thesis
      using assms Submit by simp
  qed
next
  case (Change v)
  then show ?thesis using assms by simp
next
  case (Settle now posted)
  then show ?thesis
    using assms
    by (cases "in_flight c") (auto simp add: handleSubmit_resume_not_generating split: if_splits)
next
  case WelcomeTimeout
  then show ?thesis using assms by simp
qed

lemma run_in_flight:
  "length (in_flight c) = (if isGenerating (app c) then 1 else 0) \<Longrightarrow>
   length (in_flight (run c evs)) = (if isGenerating (app (run c evs)) then 1 else 0)"
  unfolding run_def
  by (induction evs arbitrary: c) (simp_all add: fire_in_flight del: fire.simps)

lemma mount_in_flight:
  "length (in_flight client_mount) = (if isGenerating (app client_mount) then 1 else 0)"
  by (simp add: client_mount_def App_mount_def)

text \<open>
  C8. While \<open>isGenerating\<close> is true, submitting the form changes nothing:
  \<open>handleSubmit\<close> returns the state as it is (messages and input included) and sends
  no request, and the send button is disabled. So a client never has more than one
  request in flight, and has one exactly while \<open>isGenerating\<close> is true.
\<close>

theorem submit_while_generating_is_ignored:
  "(isGenerating s \<longrightarrow> handleSubmit_call now s = (s, None))
   \<and> (isGenerating s \<longrightarrow> send_disabled s)
   \<and> (isGenerating (app c) \<longrightarrow> fire c (Submit now) = c)
   \<and> length (in_flight (run client_mount evs)) \<le> 1
   \<and> (isGenerating (app (run client_mount evs)) = (in_flight (run client_mount evs) \<noteq> []))"
proof -
  have a: "isGenerating s \<longrightarrow> handleSubmit_call now s = (s, None)"
    by (simp add: handleSubmit_call_returns_early)
  have b: "isGenerating s \<longrightarrow> send_disabled s"
    by (simp add: send_disabled_def)
  have c: "isGenerating (app c) \<longrightarrow> fire c (Submit now) = c"
    by (simp add: handleSubmit_call_returns_early)
  have inv: "length (in_flight (run client_mount evs))
      = (if isGenerating (app (run client_mount evs)) then 1 else 0)"
    using run_in_flight [OF mount_in_flight] .
  then have d: "length (in_flight (run client_mount evs)) \<le> 1"
    by simp
  have e: "isGenerating (app (run client_mount evs)) = (in_flight (run client_mount evs) \<noteq> [])"
    using inv by (cases "in_flight (run client_mount evs)") (simp_all split: if_splits)
  from a b c d e show ?thesis by blast
qed

theorem submit_while_generating_is_ignored_witness:
  "isGenerating (app (run client_mount [Change (utf16 ''a''), Submit 5, Change (utf16 ''b'')]))
   \<and> fire (run client_mount [Change (utf16 ''a''), Submit 5, Change (utf16 ''b'')]) (Submit 6)
       = run client_mount [Change (utf16 ''a''), Submit 5, Change (utf16 ''b'')]
   \<and> in_flight (run client_mount [Change (utf16 ''a''), Submit 5, Change (utf16 ''b''), Submit 6])
       = [\<lparr>user_input = utf16 ''a'', length_tier = Some Medium, req_thread_id = None\<rparr>]
   \<and> input (app (run client_mount [Change (utf16 ''a''), Submit 5, Change (utf16 ''b''), Submit 6]))
       = utf16 ''b''"
proof -
  let ?evs = "[Change (utf16 ''a''), Submit 5, Change (utf16 ''b'')]"
  let ?q = "\<lparr>user_input = utf16 ''a'', length_tier = Some Medium, req_thread_id = None\<rparr>"
  have a: "trim (utf16 ''a'') = utf16 ''a''" "utf16 ''a'' \<noteq> []"
    by (simp_all add: trim_def trimEnd_def trimStart_def utf16_def isWhiteSpace_def)
  have st: "run client_mount ?evs =
      \<lparr>app = \<lparr>messages = [\<lparr>msg_id = toString 5, msg_role = User, content = utf16 ''a'',
                 msg_story = None\<rparr>],
               input = utf16 ''b'', isGenerating = True, showWelcome = True, threadId = None\<rparr>,
        in_flight = [?q], sent = [?q]\<rparr>"
    by (simp add: run_def client_mount_def App_mount_def handleSubmit_call_def
        generateStoryFromBackend_call_def a truthy_def or_undefined_def)
  have g: "isGenerating (app (run client_mount ?evs))"
    by (simp add: st)
  have same: "fire (run client_mount ?evs) (Submit 6) = run client_mount ?evs"
    using submit_while_generating_is_ignored [of "app (run client_mount ?evs)" 6
        "run client_mount ?evs" "?evs @ [Submit 6]"] g by blast
  have r: "run client_mount (?evs @ [Submit 6]) = fire (run client_mount ?evs) (Submit 6)"
    by (simp add: run_def)
  from g same r st show ?thesis by simp
qed

subsection \<open>The thread id\<close>










section \<open>Properties of the orchestration core\<close>

lemma retry_loop_rejecting:
  assumes gen: "\<forall>i. \<exists>g. generate i = Inr g"
    and rej: "\<forall>d. \<not> accepted (validate d)"
  shows "nat N - k = Suc n \<Longrightarrow>
    \<exists>ds. retry_loop N generate validate h p t k rs drafts = (Exhausted, drafts @ ds)
      \<and> length ds = Suc n \<and> map attempt_count ds = [k + 1 ..< k + 1 + Suc n]"
proof (induction n arbitrary: k rs drafts)
  case 0
  obtain g where g: "generate \<lparr>hint = h, prior_story = p, tier = t,
      negative_constraints = rs\<rparr> = Inr g"
    using gen by blast
  have "int (k + 1) = N" using 0 by linarith
  then show ?case
    using rej by (subst retry_loop.simps) (simp add: g Let_def)
next
  case (Suc n)
  obtain g where g: "generate \<lparr>hint = h, prior_story = p, tier = t,
      negative_constraints = rs\<rparr> = Inr g"
    using gen by blast
  let ?d = "\<lparr>draft_title = gen_title g, draft_body = gen_body g, draft_moral = None,
      attempt_count = k + 1, rejection_reasons = rs\<rparr>"
  have lt: "int (k + 1) < N" using Suc.prems by linarith
  have step: "retry_loop N generate validate h p t k rs drafts =
      retry_loop N generate validate h p t (k + 1) (rs @ [validate ?d]) (drafts @ [?d])"
    using rej lt by (subst retry_loop.simps) (simp add: g Let_def)
  have "nat N - (k + 1) = Suc n" using Suc.prems by linarith
  from Suc.IH [OF this]
  obtain ds where ds:
    "retry_loop N generate validate h p t (k + 1) (rs @ [validate ?d]) (drafts @ [?d])
       = (Exhausted, (drafts @ [?d]) @ ds)"
    "length ds = Suc n" "map attempt_count ds = [k + 1 + 1 ..< k + 1 + 1 + Suc n]"
    by blast
  have "[k + 1 ..< k + 1 + Suc (Suc n)] = (k + 1) # [k + 1 + 1 ..< k + 1 + 1 + Suc n]"
    by (simp add: upt_conv_Cons)
  then have "map attempt_count (?d # ds) = [k + 1 ..< k + 1 + Suc (Suc n)]"
    using ds(3) by simp
  moreover have "retry_loop N generate validate h p t k rs drafts
      = (Exhausted, drafts @ (?d # ds))"
    using step ds(1) by simp
  moreover have "length (?d # ds) = Suc (Suc n)" using ds(2) by simp
  ultimately show ?case by blast
qed

text \<open>
  C1. For \<open>max_iterations = N\<close> with \<open>N \<ge> 1\<close>, in a run where every draft is produced
  and the validator rejects every draft, the loop makes exactly \<open>N\<close> generation attempts
  and ends in the state Exhausted. The attempt count starts at 0, is incremented with each
  draft (the drafts carry the counts 1 to \<open>N\<close>) and is compared with \<open>max_iterations\<close>
  after the increment; with \<open>N = 1\<close> there is one attempt and no retry.
\<close>

theorem rejecting_validator_exhausts_after_max_iterations:
  assumes "1 \<le> N"
    and "\<forall>i. \<exists>g. generate i = Inr g"
    and "\<forall>d. \<not> accepted (validate d)"
  shows "\<exists>ds. validation_loop N generate validate h p t = (Exhausted, ds)
      \<and> length ds = nat N \<and> map attempt_count ds = [1 ..< nat N + 1]"
proof -
  obtain n where n: "nat N - 0 = Suc n"
    using assms(1) by (cases "nat N") simp_all
  from retry_loop_rejecting [OF assms(2,3) this, of h p t "[]" "[]"]
  show ?thesis using n by (simp add: validation_loop_def)
qed

theorem rejecting_validator_exhausts_after_max_iterations_witness:
  "fst (validation_loop 1
      (\<lambda>i. Inr \<lparr>gen_title = utf16 ''T'', gen_body = utf16 ''B''\<rparr>)
      (\<lambda>d. \<lparr>accepted = False, reasons = {FearHorror}, suggested_fix = None\<rparr>)
      (utf16 ''a dragon'') None Medium) = Exhausted
   \<and> snd (validation_loop 1
      (\<lambda>i. Inr \<lparr>gen_title = utf16 ''T'', gen_body = utf16 ''B''\<rparr>)
      (\<lambda>d. \<lparr>accepted = False, reasons = {FearHorror}, suggested_fix = None\<rparr>)
      (utf16 ''a dragon'') None Medium)
     = [\<lparr>draft_title = utf16 ''T'', draft_body = utf16 ''B'', draft_moral = None,
         attempt_count = 1, rejection_reasons = []\<rparr>]
   \<and> length (snd (validation_loop 3
      (\<lambda>i. Inr \<lparr>gen_title = utf16 ''T'', gen_body = utf16 ''B''\<rparr>)
      (\<lambda>d. \<lparr>accepted = False, reasons = {FearHorror}, suggested_fix = None\<rparr>)
      (utf16 ''a dragon'') None Medium)) = 3
   \<and> fst (validation_loop 3
      (\<lambda>i. Inr \<lparr>gen_title = utf16 ''T'', gen_body = utf16 ''B''\<rparr>)
      (\<lambda>d. \<lparr>accepted = False, reasons = {FearHorror}, suggested_fix = None\<rparr>)
      (utf16 ''a dragon'') None Medium) = Exhausted"
proof -
  let ?g = "\<lambda>i::DraftingInput. (Inr \<lparr>gen_title = utf16 ''T'', gen_body = utf16 ''B''\<rparr>
      :: core_error + GeneratedText)"
  let ?v = "\<lambda>d::StoryDraft. \<lparr>accepted = False, reasons = {FearHorror}, suggested_fix = None\<rparr>"
  have gen: "\<forall>i. \<exists>g. ?g i = Inr g" by simp
  have rej: "\<forall>d. \<not> accepted (?v d)" by simp
  have one: "validation_loop 1 ?g ?v (utf16 ''a dragon'') None Medium
     = (Exhausted, [\<lparr>draft_title = utf16 ''T'', draft_body = utf16 ''B'', draft_moral = None,
         attempt_count = 1, rejection_reasons = []\<rparr>])"
    by (simp add: validation_loop_def retry_loop.simps)
  from rejecting_validator_exhausts_after_max_iterations
    [of 3 ?g ?v "utf16 ''a dragon''" None Medium] gen rej
  obtain ds where "validation_loop 3 ?g ?v (utf16 ''a dragon'') None Medium = (Exhausted, ds)"
    "length ds = 3"
    by auto
  with one show ?thesis by simp
qed




text \<open>
  C3. For a thread with no live story the IntentRouter never produces ModifyStory,
  whatever the input; when the farewell, greeting and classic checks of steps 1 to 3 fail,
  the input is classified as NewStory with the input as its hint, also when it matches the
  modification pattern.
\<close>

theorem no_live_story_never_modify:
  assumes "\<not> has_live_story"
  shows "(\<forall>m. IntentRouter p u has_live_story \<noteq> ModifyStory m)
    \<and> (\<not> matches_farewell p u \<and> \<not> matches_greeting p u \<and> \<not> names_classic p u
          \<longrightarrow> IntentRouter p u has_live_story = NewStory u)"
  using assms by (simp add: IntentRouter_def)

theorem no_live_story_never_modify_witness:
  "refers_to_modification
      \<lparr>matches_farewell = (\<lambda>s. s = utf16 ''goodnight''),
       matches_greeting = (\<lambda>s. s = utf16 ''hello''),
       names_classic = (\<lambda>s. s = utf16 ''cinderella''),
       refers_to_modification = (\<lambda>s. take 4 s = utf16 ''make'')\<rparr>
      (utf16 ''make the hero braver'')
   \<and> IntentRouter
      \<lparr>matches_farewell = (\<lambda>s. s = utf16 ''goodnight''),
       matches_greeting = (\<lambda>s. s = utf16 ''hello''),
       names_classic = (\<lambda>s. s = utf16 ''cinderella''),
       refers_to_modification = (\<lambda>s. take 4 s = utf16 ''make'')\<rparr>
      (utf16 ''make the hero braver'') False
     = NewStory (utf16 ''make the hero braver'')
   \<and> IntentRouter
      \<lparr>matches_farewell = (\<lambda>s. s = utf16 ''goodnight''),
       matches_greeting = (\<lambda>s. s = utf16 ''hello''),
       names_classic = (\<lambda>s. s = utf16 ''cinderella''),
       refers_to_modification = (\<lambda>s. take 4 s = utf16 ''make'')\<rparr>
      (utf16 ''make the hero braver'') True
     = ModifyStory (utf16 ''make the hero braver'')"
proof -
  let ?p = "\<lparr>matches_farewell = (\<lambda>s. s = utf16 ''goodnight''),
       matches_greeting = (\<lambda>s. s = utf16 ''hello''),
       names_classic = (\<lambda>s. s = utf16 ''cinderella''),
       refers_to_modification = (\<lambda>s. take 4 s = utf16 ''make'')\<rparr>"
  let ?u = "utf16 ''make the hero braver''"
  have m: "refers_to_modification ?p ?u"
    by (simp add: utf16_def)
  have n: "\<not> matches_farewell ?p ?u \<and> \<not> matches_greeting ?p ?u \<and> \<not> names_classic ?p ?u"
    by (simp add: utf16_def)
  from no_live_story_never_modify [of False ?p ?u] n
  have a: "IntentRouter ?p ?u False = NewStory ?u" by blast
  have b: "IntentRouter ?p ?u True = ModifyStory ?u"
    using m n by (simp add: IntentRouter_def)
  from m a b show ?thesis by blast
qed

section \<open>The thread id from the backend to the client\<close>




end
